theory Spec2Isabelle
  imports Main
begin

section \<open>Python text\<close>

text \<open>
  A Python \<open>str\<close> is a sequence of Unicode code points, so a character is a natural
  number and a string is a list of them. \<open>py\<close> turns an ASCII literal into such a string.
\<close>

type_synonym codepoint = nat
type_synonym str = "codepoint list"

definition py :: "string \<Rightarrow> str" where
  "py s = map of_char s"

definition LF :: codepoint where
  "LF = 10"

definition CR :: codepoint where
  "CR = 13"

text \<open>
  \<open>str.rstrip()\<close> without an argument removes the characters for which
  \<open>str.isspace\<close> holds. The interpreter's table of whitespace code points is:
  U+0009..U+000D, U+001C..U+0020, U+0085, U+00A0, U+1680, U+2000..U+200A, U+2028,
  U+2029, U+202F, U+205F and U+3000.
\<close>

definition isspace :: "codepoint \<Rightarrow> bool" where
  "isspace c \<longleftrightarrow>
     (9 \<le> c \<and> c \<le> 13) \<or> (28 \<le> c \<and> c \<le> 32) \<or> c = 133 \<or> c = 160 \<or> c = 5760 \<or>
     (8192 \<le> c \<and> c \<le> 8202) \<or> c = 8232 \<or> c = 8233 \<or> c = 8239 \<or> c = 8287 \<or> c = 12288"

text \<open>\<open>line.rstrip()\<close>: scan from the right end while the character is whitespace.\<close>

definition rstrip :: "str \<Rightarrow> str" where
  "rstrip s = rev (dropWhile isspace (rev s))"

section \<open>Reading a text file line by line\<close>

text \<open>
  \<open>open(path, 'r')\<close> opens in text mode with universal newlines: on input, \<open>\r\n\<close> and a
  lone \<open>\r\<close> are delivered as \<open>\n\<close>.
\<close>

fun universal_newlines :: "str \<Rightarrow> str" where
  "universal_newlines [] = []"
| "universal_newlines [c] = (if c = CR then [LF] else [c])"
| "universal_newlines (c # d # cs) =
     (if c = CR \<and> d = LF then LF # universal_newlines cs
      else if c = CR then LF # universal_newlines (d # cs)
      else c # universal_newlines (d # cs))"

text \<open>
  Iterating over the file yields its lines, each with its terminating \<open>\n\<close> kept; the
  last line has none when the text does not end in one.
\<close>

fun keepends :: "str \<Rightarrow> str list" where
  "keepends [] = []"
| "keepends (c # cs) =
     (if c = LF then [LF] # keepends cs
      else (case keepends cs of [] \<Rightarrow> [[c]] | l # ls \<Rightarrow> (c # l) # ls))"

definition file_lines :: "str \<Rightarrow> str list" where
  "file_lines s = keepends (universal_newlines s)"

section \<open>Files, errors and the world\<close>

datatype error = FileNotFoundError | IsADirectoryError | PermissionError | UnicodeDecodeError

text \<open>
  A regular file has its decoded text and a permission bit. \<open>fault = Some k\<close> is a file
  whose reading fails partway: \<open>k\<close> lines are delivered (fewer when the file is shorter)
  and the next read raises.
\<close>

record text_file =
  readable :: bool
  content :: str
  fault :: "nat option"

datatype node = Directory | Regular text_file

text \<open>
  The state outside the function: the file system, and the paths of the files the process
  holds open. Any further global state (module-level bindings, the environment) is the
  extension part of the record.
\<close>

record world =
  fs :: "str \<Rightarrow> node option"
  handles :: "str list"

definition open_file :: "str \<Rightarrow> 'a world_scheme \<Rightarrow> (error + text_file) \<times> 'a world_scheme" where
  "open_file path w =
     (case fs w path of
        None \<Rightarrow> (Inl FileNotFoundError, w)
      | Some Directory \<Rightarrow> (Inl IsADirectoryError, w)
      | Some (Regular f) \<Rightarrow>
          if readable f then (Inr f, w\<lparr>handles := path # handles w\<rparr>)
          else (Inl PermissionError, w))"

definition close_file :: "str \<Rightarrow> 'a world_scheme \<Rightarrow> 'a world_scheme" where
  "close_file path w = w\<lparr>handles := remove1 path (handles w)\<rparr>"

text \<open>What the iterator of an open file hands out: lines, then possibly an exception.\<close>

definition iter_file :: "text_file \<Rightarrow> (error + str) list" where
  "iter_file f =
     (case fault f of
        None \<Rightarrow> map Inr (file_lines (content f))
      | Some k \<Rightarrow> map Inr (take k (file_lines (content f))) @ [Inl UnicodeDecodeError])"

section \<open>setup.py\<close>

text \<open>\<open>os.path.join\<close> with two components, on a POSIX system.\<close>

definition os_path_join :: "str \<Rightarrow> str \<Rightarrow> str" where
  "os_path_join a b =
     (if take 1 b = py ''/'' then b
      else if a = [] \<or> last a = of_char CHR ''/'' then a @ b
      else a @ py ''/'' @ b)"

text \<open>
  \<open>[line.rstrip() for line in f]\<close>: the comprehension consumes the iterator; an exception
  raised by the iterator ends it and the list built so far is dropped.
\<close>

fun comprehension :: "(error + str) list \<Rightarrow> error + str list" where
  "comprehension [] = Inr []"
| "comprehension (Inl e # rest) = Inl e"
| "comprehension (Inr line # rest) =
     (case comprehension rest of Inl e \<Rightarrow> Inl e | Inr requirements \<Rightarrow> Inr (rstrip line # requirements))"

definition reqs_path :: str where
  "reqs_path = os_path_join (py ''.'') (py ''requirements.txt'')"

text \<open>
  \<open>with open(reqs_path, 'r') as f: ...\<close>: when \<open>open\<close> raises, nothing was acquired and the
  exception leaves the function; otherwise the body runs and the file is closed on the
  way out, whether the body returned or raised.
\<close>

definition read_requirements :: "'a world_scheme \<Rightarrow> (error + str list) \<times> 'a world_scheme" where
  "read_requirements w =
     (case open_file reqs_path w of
        (Inl e, w') \<Rightarrow> (Inl e, w')
      | (Inr f, w') \<Rightarrow>
          (let requirements = comprehension (iter_file f)
           in (requirements, close_file reqs_path w')))"

definition console_scripts :: "str list" where
  "console_scripts = []"

record metadata =
  name :: str
  version :: str
  description :: str
  author :: str
  author_email :: str
  license :: str
  install_requires :: "str list"
  url :: str
  package_dir :: "(str \<times> str) list"
  packages :: "str list"
  entry_points :: "(str \<times> str list) list"

text \<open>
  The module's call of \<open>setup\<close>: the keyword arguments are evaluated first, among them
  \<open>read_requirements()\<close>, whose exception ends the script. \<open>find_packages\<close> belongs to
  setuptools and is a parameter here. The result is the record \<open>setup\<close> receives.
\<close>

definition setup_call ::
    "(str \<Rightarrow> str list) \<Rightarrow> 'a world_scheme \<Rightarrow> (error + metadata) \<times> 'a world_scheme" where
  "setup_call find_packages w =
     (case read_requirements w of
        (Inl e, w') \<Rightarrow> (Inl e, w')
      | (Inr requirements, w') \<Rightarrow>
          (Inr \<lparr>name = py ''attacksplitnn'',
                version = py ''0.0.0'',
                description = py ''Attacking SplitNN'',
                author = py ''Koukyosyumei'',
                author_email = py ''koukyosyumei@hotmail.com'',
                license = py ''MIT'',
                install_requires = requirements,
                url = py ''https://github.com/Koukyosyumei/Attack_SplitNN'',
                package_dir = [(py '''', py ''src'')],
                packages = find_packages (py ''src''),
                entry_points = [(py ''console_scripts'', console_scripts)]\<rparr>, w'))"

section \<open>Concrete worlds\<close>

definition plain_file :: "str \<Rightarrow> text_file" where
  "plain_file s = \<lparr>readable = True, content = s, fault = None\<rparr>"

text \<open>A world whose only file is \<open>./requirements.txt\<close> with the given text, nothing open.\<close>

definition world_with :: "str \<Rightarrow> world" where
  "world_with s =
     \<lparr>fs = (\<lambda>p. if p = py ''./requirements.txt'' then Some (Regular (plain_file s)) else None),
      handles = []\<rparr>"

text \<open>The same file, but its reading fails after \<open>k\<close> lines.\<close>

definition faulty_file :: "str \<Rightarrow> nat \<Rightarrow> text_file" where
  "faulty_file s k = \<lparr>readable = True, content = s, fault = Some k\<rparr>"

definition world_faulty :: "str \<Rightarrow> nat \<Rightarrow> world" where
  "world_faulty s k =
     \<lparr>fs = (\<lambda>p. if p = py ''./requirements.txt'' then Some (Regular (faulty_file s k)) else None),
      handles = []\<rparr>"

text \<open>A world without the file.\<close>

definition world_without :: world where
  "world_without = \<lparr>fs = (\<lambda>p. None), handles = []\<rparr>"

text \<open>
  A world with more global state than the file system: a module-level binding in the
  extension part, and another file already open.
\<close>

definition world_extended :: "str \<Rightarrow> (str list) world_scheme" where
  "world_extended s =
     \<lparr>fs = (\<lambda>p. if p = py ''./requirements.txt'' then Some (Regular (plain_file s)) else None),
      handles = [py ''setup.cfg''],
      \<dots> = [py ''module-level'']\<rparr>"

text \<open>The file of the specification's concrete scenario.\<close>

definition scenario_text :: str where
  "scenario_text =
     py ''numpy==1.21.0'' @ [LF] @ py ''torch>=1.9'' @ [LF] @ [LF] @ py ''scikit-learn'' @ [LF]"

text \<open>Further concrete files used below.\<close>

definition two_lines :: str where
  "two_lines = py ''numpy '' @ [LF] @ py ''torch'' @ [LF]"

definition blank_text :: str where
  "blank_text = py ''numpy'' @ [LF] @ py ''  '' @ [9, LF]"

definition crlf_text :: str where
  "crlf_text = py ''numpy '' @ [9, CR, LF] @ py ''torch'' @ [CR, LF]"

section \<open>The specification's reading of a line\<close>

text \<open>
  The specification describes the element produced for a line as the line with only its
  trailing line terminator removed. This is that description, to be compared with
  \<open>rstrip\<close>.
\<close>

definition spec_strip_terminator :: "str \<Rightarrow> str" where
  "spec_strip_terminator l = (if l \<noteq> [] \<and> last l = LF then butlast l else l)"

section \<open>Basic facts\<close>

lemma reqs_path_eq: "reqs_path = py ''./requirements.txt''"
  by (simp add: reqs_path_def os_path_join_def py_def)

lemma isspace_LF: "isspace LF"
  by (simp add: isspace_def LF_def)

lemma rstrip_split: "s = rstrip s @ rev (takeWhile isspace (rev s))"
proof -
  have "rev s = takeWhile isspace (rev s) @ dropWhile isspace (rev s)"
    by simp
  then have "rev (rev s) = rev (dropWhile isspace (rev s)) @ rev (takeWhile isspace (rev s))"
    by (metis rev_append)
  then show ?thesis
    by (simp add: rstrip_def)
qed

lemma rstrip_suffix_space: "\<exists>ws. s = rstrip s @ ws \<and> (\<forall>c \<in> set ws. isspace c)"
proof -
  have "\<forall>c \<in> set (rev (takeWhile isspace (rev s))). isspace c"
    by (auto dest: set_takeWhileD)
  with rstrip_split [of s] show ?thesis
    by blast
qed

lemma rstrip_last: "rstrip s = [] \<or> \<not> isspace (last (rstrip s))"
proof (cases "dropWhile isspace (rev s) = []")
  case True
  then show ?thesis by (simp add: rstrip_def)
next
  case False
  then have "\<not> isspace (hd (dropWhile isspace (rev s)))"
    by (rule hd_dropWhile)
  with False show ?thesis
    by (simp add: rstrip_def last_rev)
qed

lemma rstrip_unique:
  assumes "p = [] \<or> \<not> isspace (last p)" and "\<forall>c \<in> set ws. isspace c"
  shows "rstrip (p @ ws) = p"
proof -
  have "dropWhile isspace (rev ws @ rev p) = dropWhile isspace (rev p)"
    by (rule dropWhile_append2) (use assms(2) in simp)
  moreover have "dropWhile isspace (rev p) = rev p"
    using assms(1) by (cases p rule: rev_cases) auto
  ultimately show ?thesis
    by (simp add: rstrip_def)
qed

lemma rstrip_all_space: "\<forall>c \<in> set s. isspace c \<Longrightarrow> rstrip s = []"
  using rstrip_unique [of "[]" s] by simp

lemma spec_strip_terminator_split:
  "\<exists>t. l = spec_strip_terminator l @ t \<and> (\<forall>c \<in> set t. isspace c)"
proof (cases "l \<noteq> [] \<and> last l = LF")
  case True
  then have "l = butlast l @ [LF]"
    by (metis append_butlast_last_id)
  with True show ?thesis
    by (metis isspace_LF spec_strip_terminator_def empty_iff empty_set set_ConsD)
next
  case False
  then have "l = spec_strip_terminator l @ []"
    by (auto simp add: spec_strip_terminator_def)
  then show ?thesis
    by (metis empty_iff empty_set)
qed

lemma rstrip_eq_spec:
  assumes "spec_strip_terminator l = [] \<or> \<not> isspace (last (spec_strip_terminator l))"
  shows "rstrip l = spec_strip_terminator l"
proof -
  obtain t where "l = spec_strip_terminator l @ t" and "\<forall>c \<in> set t. isspace c"
    using spec_strip_terminator_split by blast
  with assms show ?thesis
    by (metis rstrip_unique)
qed

lemma comprehension_lines: "comprehension (map Inr ls) = Inr (map rstrip ls)"
  by (induction ls) simp_all

lemma comprehension_raise: "comprehension (map Inr ls @ [Inl e]) = Inl e"
  by (induction ls) simp_all

lemma close_after_open: "close_file p (w\<lparr>handles := p # handles w\<rparr>) = w"
  by (simp add: close_file_def)

lemma read_requirements_ok:
  assumes "fs w reqs_path = Some (Regular f)" and "readable f" and "fault f = None"
  shows "read_requirements w = (Inr (map rstrip (file_lines (content f))), w)"
  using assms
  by (simp add: read_requirements_def open_file_def iter_file_def comprehension_lines
      close_after_open)

lemma read_requirements_fault:
  assumes "fs w reqs_path = Some (Regular f)" and "readable f" and "fault f = Some k"
  shows "read_requirements w = (Inl UnicodeDecodeError, w)"
  using assms
  by (simp add: read_requirements_def open_file_def iter_file_def comprehension_raise
      close_after_open)

lemma read_requirements_open_fails:
  assumes "fst (open_file reqs_path w) = Inl e"
  shows "read_requirements w = (Inl e, w)"
  using assms
  by (auto simp add: read_requirements_def open_file_def
      split: option.splits node.splits if_splits)

lemma read_requirements_world: "snd (read_requirements w) = w"
  by (auto simp add: read_requirements_def open_file_def close_after_open Let_def
      split: option.splits node.splits if_splits)

lemma read_requirements_Inr:
  assumes "fst (read_requirements w) = Inr rs"
  shows "\<exists>f. fs w reqs_path = Some (Regular f) \<and> readable f \<and> fault f = None \<and>
             rs = map rstrip (file_lines (content f))"
  using assms
  by (auto simp add: read_requirements_def open_file_def iter_file_def comprehension_lines
      comprehension_raise split: option.splits node.splits if_splits)

lemma concat_keepends: "concat (keepends s) = s"
  by (induction s) (auto split: list.splits)

lemma keepends_nonempty: "l \<in> set (keepends s) \<Longrightarrow> l \<noteq> []"
  by (induction s arbitrary: l) (auto split: list.splits if_splits)

lemma keepends_Nil_iff: "keepends s = [] \<longleftrightarrow> s = []"
  by (cases s) (auto split: list.splits)

lemma length_keepends:
  "length (keepends s) = count_list s LF + (if s = [] \<or> last s = LF then 0 else 1)"
proof (induction s)
  case Nil
  then show ?case by simp
next
  case (Cons c cs)
  show ?case
  proof (cases "keepends cs")
    case Nil
    then have "cs = []"
      by (simp add: keepends_Nil_iff)
    then show ?thesis
      by simp
  next
    case (Cons l ls)
    then have "cs \<noteq> []"
      by auto
    with Cons Cons.IH show ?thesis
      by simp
  qed
qed

lemma setup_call_ok:
  assumes "fs w reqs_path = Some (Regular f)" and "readable f" and "fault f = None"
  shows "\<exists>m. fst (setup_call find_packages w) = Inr m"
  using assms by (simp add: setup_call_def read_requirements_ok)

lemmas eval_defs = world_with_def world_faulty_def world_without_def
  world_extended_def plain_file_def faulty_file_def
  reqs_path_eq file_lines_def py_def LF_def CR_def
  rstrip_def isspace_def spec_strip_terminator_def

section \<open>Claims\<close>

subsection \<open>What each line becomes\<close>

text \<open>
  C1, as stated: for every line of the input file the returned string equals the line with
  only its trailing line terminator removed, no other trailing character being stripped.
  This fails: for the file \<open>numpy \n\<close> (a space before the terminator) the code returns
  \<open>numpy\<close>, while the line without its terminator is \<open>numpy \<close> with the space.
\<close>

theorem read_requirements_trailing_space_counterexample:
  "fst (read_requirements (world_with (py ''numpy '' @ [LF]))) \<noteq>
     Inr (map spec_strip_terminator (file_lines (py ''numpy '' @ [LF]))) \<and>
   fst (read_requirements (world_with (py ''numpy '' @ [LF]))) = Inr [py ''numpy''] \<and>
   map spec_strip_terminator (file_lines (py ''numpy '' @ [LF])) = [py ''numpy ''] \<and>
   py ''numpy'' \<noteq> py ''numpy ''"
  by (simp add: read_requirements_def open_file_def close_file_def iter_file_def eval_defs)

text \<open>
  C1, amended: when the file is read without error, the result has one string per line,
  and the string for a line is that line with its whole trailing run of whitespace removed
  (the terminator together with any spaces, tabs and other whitespace before it): the line
  is the string followed by whitespace only, and the string is empty or ends in a
  non-whitespace character. Nothing else is changed: no comment stripping and no
  blank-line filtering. In particular, whenever the line without its terminator is empty
  or ends in a non-whitespace character, the string is exactly the line without its
  terminator.
\<close>

theorem read_requirements_rstrip_each_line:
  assumes "fs w reqs_path = Some (Regular f)" and "readable f" and "fault f = None"
  shows "\<exists>rs. fst (read_requirements w) = Inr rs \<and>
    length rs = length (file_lines (content f)) \<and>
    (\<forall>i < length rs.
       (\<exists>ws. file_lines (content f) ! i = rs ! i @ ws \<and> (\<forall>c \<in> set ws. isspace c)) \<and>
       (rs ! i = [] \<or> \<not> isspace (last (rs ! i))) \<and>
       (spec_strip_terminator (file_lines (content f) ! i) = [] \<or>
        \<not> isspace (last (spec_strip_terminator (file_lines (content f) ! i)))
        \<longrightarrow> rs ! i = spec_strip_terminator (file_lines (content f) ! i)))"
proof -
  let ?ls = "file_lines (content f)"
  have r: "fst (read_requirements w) = Inr (map rstrip ?ls)"
    using assms by (simp add: read_requirements_ok)
  have "\<exists>ws. ?ls ! i = map rstrip ?ls ! i @ ws \<and> (\<forall>c \<in> set ws. isspace c)"
    if "i < length ?ls" for i
    using that rstrip_suffix_space [of "?ls ! i"] by simp
  moreover have "map rstrip ?ls ! i = [] \<or> \<not> isspace (last (map rstrip ?ls ! i))"
    if "i < length ?ls" for i
    using that rstrip_last [of "?ls ! i"] by simp
  moreover have "map rstrip ?ls ! i = spec_strip_terminator (?ls ! i)"
    if "i < length ?ls"
      and "spec_strip_terminator (?ls ! i) = [] \<or> \<not> isspace (last (spec_strip_terminator (?ls ! i)))"
    for i
    using that rstrip_eq_spec [of "?ls ! i"] by simp
  ultimately show ?thesis
    using r by auto
qed

theorem read_requirements_rstrip_each_line_witness:
  "fs (world_with two_lines) reqs_path = Some (Regular (plain_file two_lines)) \<and>
   readable (plain_file two_lines) \<and> fault (plain_file two_lines) = None \<and>
   file_lines (content (plain_file two_lines)) = [py ''numpy '' @ [LF], py ''torch'' @ [LF]] \<and>
   (\<exists>rs. fst (read_requirements (world_with two_lines)) = Inr rs \<and> length rs = 2 \<and>
      rs ! 1 = py ''torch'')"
proof -
  have h1: "fs (world_with two_lines) reqs_path = Some (Regular (plain_file two_lines))"
    by (simp add: world_with_def reqs_path_eq)
  have h2: "readable (plain_file two_lines)" and h3: "fault (plain_file two_lines) = None"
    by (simp_all add: plain_file_def)
  have l: "file_lines (content (plain_file two_lines)) = [py ''numpy '' @ [LF], py ''torch'' @ [LF]]"
    by (simp add: two_lines_def eval_defs)
  have s: "spec_strip_terminator (py ''torch'' @ [LF]) = py ''torch''"
    by (simp add: eval_defs)
  have n: "\<not> isspace (last (py ''torch''))"
    by (simp add: eval_defs)
  from read_requirements_rstrip_each_line [OF h1 h2 h3] obtain rs where
    r: "fst (read_requirements (world_with two_lines)) = Inr rs" and
    len: "length rs = length (file_lines (content (plain_file two_lines)))" and
    each: "\<forall>i < length rs.
       (\<exists>ws. file_lines (content (plain_file two_lines)) ! i = rs ! i @ ws \<and> (\<forall>c \<in> set ws. isspace c)) \<and>
       (rs ! i = [] \<or> \<not> isspace (last (rs ! i))) \<and>
       (spec_strip_terminator (file_lines (content (plain_file two_lines)) ! i) = [] \<or>
        \<not> isspace (last (spec_strip_terminator (file_lines (content (plain_file two_lines)) ! i)))
        \<longrightarrow> rs ! i = spec_strip_terminator (file_lines (content (plain_file two_lines)) ! i))"
    by blast
  from len l have len2: "length rs = 2"
    by simp
  with each have "spec_strip_terminator (file_lines (content (plain_file two_lines)) ! 1) = [] \<or>
        \<not> isspace (last (spec_strip_terminator (file_lines (content (plain_file two_lines)) ! 1)))
        \<longrightarrow> rs ! 1 = spec_strip_terminator (file_lines (content (plain_file two_lines)) ! 1)"
    by simp
  with l s n have "rs ! 1 = py ''torch''"
    by simp
  with r len2 h1 h2 h3 l show ?thesis
    by blast
qed

text \<open>
  C2, as stated: a line that consists entirely of whitespace followed by the terminator
  yields an element that preserves that whitespace. This fails: for the file of the one
  line \<open>  \n\<close> (two spaces) the code returns the empty string, not the two spaces.
\<close>

theorem read_requirements_whitespace_line_counterexample:
  "fst (read_requirements (world_with (py ''  '' @ [LF]))) = Inr [py ''''] \<and>
   map spec_strip_terminator (file_lines (py ''  '' @ [LF])) = [py ''  ''] \<and>
   py '''' \<noteq> py ''  ''"
  by (simp add: read_requirements_def open_file_def close_file_def iter_file_def eval_defs)

text \<open>
  C2, amended: when the file is read without error, a line that consists entirely of
  whitespace (terminator included) yields the empty string: its whitespace is not
  preserved.
\<close>

theorem read_requirements_whitespace_line_empty:
  assumes "fs w reqs_path = Some (Regular f)" and "readable f" and "fault f = None"
    and "i < length (file_lines (content f))"
    and "\<forall>c \<in> set (file_lines (content f) ! i). isspace c"
  shows "\<exists>rs. fst (read_requirements w) = Inr rs \<and> i < length rs \<and> rs ! i = []"
proof -
  have "fst (read_requirements w) = Inr (map rstrip (file_lines (content f)))"
    using assms(1-3) by (simp add: read_requirements_ok)
  moreover have "map rstrip (file_lines (content f)) ! i = []"
    using assms(4,5) by (simp add: rstrip_all_space)
  ultimately show ?thesis
    using assms(4) by simp
qed

theorem read_requirements_whitespace_line_empty_witness:
  "fs (world_with blank_text) reqs_path = Some (Regular (plain_file blank_text)) \<and>
   readable (plain_file blank_text) \<and> fault (plain_file blank_text) = None \<and>
   1 < length (file_lines (content (plain_file blank_text))) \<and>
   file_lines (content (plain_file blank_text)) ! 1 = py ''  '' @ [9, LF] \<and>
   isspace 32 \<and> isspace 9 \<and> isspace LF \<and>
   (\<exists>rs. fst (read_requirements (world_with blank_text)) = Inr rs \<and> 1 < length rs \<and> rs ! 1 = [])"
proof -
  have h1: "fs (world_with blank_text) reqs_path = Some (Regular (plain_file blank_text))"
    by (simp add: world_with_def reqs_path_eq)
  have h2: "readable (plain_file blank_text)" and h3: "fault (plain_file blank_text) = None"
    by (simp_all add: plain_file_def)
  have l: "file_lines (content (plain_file blank_text)) = [py ''numpy'' @ [LF], py ''  '' @ [9, LF]]"
    by (simp add: blank_text_def eval_defs)
  have h4: "1 < length (file_lines (content (plain_file blank_text)))"
    by (simp add: l)
  have e: "file_lines (content (plain_file blank_text)) ! 1 = py ''  '' @ [9, LF]"
    by (simp add: l)
  have sp: "isspace 32" "isspace 9" "isspace LF"
    by (simp_all add: isspace_def LF_def)
  have h5: "\<forall>c \<in> set (file_lines (content (plain_file blank_text)) ! 1). isspace c"
    unfolding e using sp by (simp add: py_def)
  from read_requirements_whitespace_line_empty [OF h1 h2 h3 h4 h5] h1 h2 h3 h4 e sp show ?thesis
    by blast
qed

text \<open>
  C3: when the file is read without error and has N lines, \<open>read_requirements\<close> returns
  exactly N strings: N is the number of lines the file iterator yields, which is the number
  of line terminators plus one when the text ends in an unterminated line. The i-th string
  comes from the i-th line, so the order is that of the input lines, and a blank line (a
  line that is only its terminator) becomes the empty string at its position.
\<close>

theorem read_requirements_one_string_per_line:
  assumes "fs w reqs_path = Some (Regular f)" and "readable f" and "fault f = None"
  shows "\<exists>rs. fst (read_requirements w) = Inr rs \<and>
    length rs = length (file_lines (content f)) \<and>
    length rs = count_list (universal_newlines (content f)) LF +
      (if universal_newlines (content f) = [] \<or> last (universal_newlines (content f)) = LF
       then 0 else 1) \<and>
    (\<forall>i < length rs. rs ! i = rstrip (file_lines (content f) ! i)) \<and>
    (\<forall>i < length rs. file_lines (content f) ! i = [LF] \<longrightarrow> rs ! i = [])"
proof -
  let ?ls = "file_lines (content f)"
  have r: "fst (read_requirements w) = Inr (map rstrip ?ls)"
    using assms by (simp add: read_requirements_ok)
  have n: "length (map rstrip ?ls) = count_list (universal_newlines (content f)) LF +
      (if universal_newlines (content f) = [] \<or> last (universal_newlines (content f)) = LF
       then 0 else 1)"
    by (simp only: length_map file_lines_def length_keepends)
  have b: "rstrip [LF] = []"
    by (simp add: rstrip_def isspace_LF)
  have "map rstrip ?ls ! i = []" if "i < length ?ls" and "?ls ! i = [LF]" for i
    using that b by simp
  with r n show ?thesis
    by auto
qed

theorem read_requirements_one_string_per_line_witness:
  "fs (world_with scenario_text) reqs_path = Some (Regular (plain_file scenario_text)) \<and>
   readable (plain_file scenario_text) \<and> fault (plain_file scenario_text) = None \<and>
   length (file_lines (content (plain_file scenario_text))) = 4 \<and>
   file_lines (content (plain_file scenario_text)) ! 2 = [LF] \<and>
   (\<exists>rs. fst (read_requirements (world_with scenario_text)) = Inr rs \<and> length rs = 4 \<and>
      rs ! 2 = [])"
proof -
  have h1: "fs (world_with scenario_text) reqs_path = Some (Regular (plain_file scenario_text))"
    by (simp add: world_with_def reqs_path_eq)
  have h2: "readable (plain_file scenario_text)" and h3: "fault (plain_file scenario_text) = None"
    by (simp_all add: plain_file_def)
  have l: "file_lines (content (plain_file scenario_text)) =
      [py ''numpy==1.21.0'' @ [LF], py ''torch>=1.9'' @ [LF], [LF], py ''scikit-learn'' @ [LF]]"
    by (simp add: scenario_text_def eval_defs)
  have n: "length (file_lines (content (plain_file scenario_text))) = 4"
    by (simp add: l)
  have e: "file_lines (content (plain_file scenario_text)) ! 2 = [LF]"
    by (simp add: l)
  from read_requirements_one_string_per_line [OF h1 h2 h3] obtain rs where
    r: "fst (read_requirements (world_with scenario_text)) = Inr rs" and
    len: "length rs = length (file_lines (content (plain_file scenario_text)))" and
    blank: "\<forall>i < length rs. file_lines (content (plain_file scenario_text)) ! i = [LF] \<longrightarrow> rs ! i = []"
    by blast
  from len n have len4: "length rs = 4"
    by simp
  with blank e have "rs ! 2 = []"
    by simp
  with r len4 h1 h2 h3 n e show ?thesis
    by blast
qed

text \<open>
  C10: every string in the list returned by \<open>read_requirements\<close> is empty or ends in a
  non-whitespace character; in particular no element ends in a space, a tab, a carriage
  return or a line feed. The witness is a file with CRLF line endings and a space and a tab
  before the first of them.
\<close>

theorem read_requirements_no_trailing_whitespace:
  assumes "fst (read_requirements w) = Inr rs" and "r \<in> set rs"
  shows "r = [] \<or>
    (\<not> isspace (last r) \<and> last r \<noteq> 32 \<and> last r \<noteq> 9 \<and> last r \<noteq> CR \<and> last r \<noteq> LF)"
proof -
  obtain f :: text_file where "rs = map rstrip (file_lines (content f))"
    using read_requirements_Inr [OF assms(1)] by blast
  with assms(2) obtain l where "r = rstrip l"
    by auto
  then have "r = [] \<or> \<not> isspace (last r)"
    using rstrip_last [of l] by simp
  moreover have "isspace 32" "isspace 9" "isspace CR" "isspace LF"
    by (simp_all add: isspace_def CR_def LF_def)
  ultimately show ?thesis
    by metis
qed

theorem read_requirements_no_trailing_whitespace_witness:
  "fst (read_requirements (world_with crlf_text)) = Inr [py ''numpy'', py ''torch''] \<and>
   py ''numpy'' \<in> set [py ''numpy'', py ''torch''] \<and>
   py ''numpy'' \<noteq> [] \<and> \<not> isspace (last (py ''numpy'')) \<and> last (py ''numpy'') \<noteq> CR"
proof -
  have "fs (world_with crlf_text) reqs_path = Some (Regular (plain_file crlf_text))"
    by (simp add: world_with_def reqs_path_eq)
  then have "read_requirements (world_with crlf_text) =
      (Inr (map rstrip (file_lines (content (plain_file crlf_text)))), world_with crlf_text)"
    by (rule read_requirements_ok) (simp_all add: plain_file_def)
  moreover have "map rstrip (file_lines (content (plain_file crlf_text))) = [py ''numpy'', py ''torch'']"
    by (simp add: crlf_text_def eval_defs)
  ultimately have h1: "fst (read_requirements (world_with crlf_text)) = Inr [py ''numpy'', py ''torch'']"
    by simp
  have h2: "py ''numpy'' \<in> set [py ''numpy'', py ''torch'']"
    by simp
  have ne: "py ''numpy'' \<noteq> []"
    by (simp add: py_def)
  from read_requirements_no_trailing_whitespace [OF h1 h2] h1 h2 ne show ?thesis
    by blast
qed

subsection \<open>Failure to open the file\<close>

text \<open>
  C4: if \<open>./requirements.txt\<close> does not exist or cannot be opened (it is a directory, or
  it may not be read), \<open>read_requirements\<close> ends with the very error \<open>open\<close> raised, a
  file-access error (\<open>FileNotFoundError\<close> when the file is missing); the error is neither
  caught nor translated, it reaches the caller, whose call of \<open>setup\<close> never happens, and
  no list, empty or partial, is returned.
\<close>

theorem read_requirements_open_error_propagates:
  assumes "fs w reqs_path = None \<or> fs w reqs_path = Some Directory \<or>
    (\<exists>f. fs w reqs_path = Some (Regular f) \<and> \<not> readable f)"
  shows "\<exists>e. e \<in> {FileNotFoundError, IsADirectoryError, PermissionError} \<and>
    (fs w reqs_path = None \<longrightarrow> e = FileNotFoundError) \<and>
    fst (open_file reqs_path w) = Inl e \<and>
    read_requirements w = (Inl e, w) \<and>
    fst (setup_call find_packages w) = Inl e \<and>
    (\<forall>rs. fst (read_requirements w) \<noteq> Inr rs)"
proof -
  from assms obtain e where e: "fst (open_file reqs_path w) = Inl e"
    and k: "e \<in> {FileNotFoundError, IsADirectoryError, PermissionError}"
    and n: "fs w reqs_path = None \<longrightarrow> e = FileNotFoundError"
    by (auto simp add: open_file_def)
  from e have r: "read_requirements w = (Inl e, w)"
    by (rule read_requirements_open_fails)
  then have "fst (setup_call find_packages w) = Inl e"
    by (simp add: setup_call_def)
  with e k n r show ?thesis
    by auto
qed

theorem read_requirements_open_error_propagates_witness:
  "fs world_without reqs_path = None \<and>
   read_requirements world_without = (Inl FileNotFoundError, world_without) \<and>
   fst (setup_call (\<lambda>d. []) world_without) = Inl FileNotFoundError"
proof -
  have n: "fs world_without reqs_path = None"
    by (simp add: world_without_def)
  then have h: "fs world_without reqs_path = None \<or> fs world_without reqs_path = Some Directory \<or>
    (\<exists>f. fs world_without reqs_path = Some (Regular f) \<and> \<not> readable f)"
    by simp
  from read_requirements_open_error_propagates [OF h, of "\<lambda>d. []"] n show ?thesis
    by auto
qed

subsection \<open>The metadata record\<close>

text \<open>
  C9: whenever the script reaches its call of \<open>setup\<close>, the record it hands over has as
  entry points exactly the group \<open>console_scripts\<close> with an empty list: the module's
  \<open>console_scripts\<close> is empty, so the package exposes no command.
\<close>

theorem setup_call_entry_points:
  assumes "fst (setup_call find_packages w) = Inr m"
  shows "console_scripts = [] \<and> entry_points m = [(py ''console_scripts'', [])] \<and>
    map_of (entry_points m) (py ''console_scripts'') = Some []"
  using assms
  by (auto simp add: setup_call_def console_scripts_def split: prod.splits sum.splits)

theorem setup_call_entry_points_witness:
  "\<exists>m. fst (setup_call (\<lambda>d. [py ''attacksplitnn'']) (world_with scenario_text)) = Inr m \<and>
     console_scripts = [] \<and> entry_points m = [(py ''console_scripts'', [])] \<and>
     map_of (entry_points m) (py ''console_scripts'') = Some []"
proof -
  have "fs (world_with scenario_text) reqs_path = Some (Regular (plain_file scenario_text))"
    by (simp add: world_with_def reqs_path_eq)
  then obtain m where
    m: "fst (setup_call (\<lambda>d. [py ''attacksplitnn'']) (world_with scenario_text)) = Inr m"
    using setup_call_ok [of "world_with scenario_text" "plain_file scenario_text"]
    by (auto simp add: plain_file_def)
  from setup_call_entry_points [OF m] m show ?thesis
    by blast
qed

subsection \<open>Concrete scenarios\<close>

text \<open>
  C5: when \<open>./requirements.txt\<close> holds the text
  \<open>numpy==1.21.0\ntorch>=1.9\n\nscikit-learn\n\<close> (four lines, the third blank),
  \<open>read_requirements\<close> returns exactly the four strings \<open>numpy==1.21.0\<close>,
  \<open>torch>=1.9\<close>, the empty string and \<open>scikit-learn\<close>, in this order.
\<close>

theorem read_requirements_scenario:
  assumes "fs w reqs_path = Some (Regular f)" and "readable f" and "fault f = None"
    and "content f =
      py ''numpy==1.21.0'' @ [LF] @ py ''torch>=1.9'' @ [LF] @ [LF] @ py ''scikit-learn'' @ [LF]"
  shows "fst (read_requirements w) =
    Inr [py ''numpy==1.21.0'', py ''torch>=1.9'', py '''', py ''scikit-learn'']"
proof -
  have "map rstrip (file_lines (content f)) =
      [py ''numpy==1.21.0'', py ''torch>=1.9'', py '''', py ''scikit-learn'']"
    unfolding assms(4) by (simp add: eval_defs)
  with assms(1-3) show ?thesis
    by (simp add: read_requirements_ok)
qed

theorem read_requirements_scenario_witness:
  "fs (world_with scenario_text) reqs_path = Some (Regular (plain_file scenario_text)) \<and>
   readable (plain_file scenario_text) \<and> fault (plain_file scenario_text) = None \<and>
   content (plain_file scenario_text) =
     py ''numpy==1.21.0'' @ [LF] @ py ''torch>=1.9'' @ [LF] @ [LF] @ py ''scikit-learn'' @ [LF] \<and>
   fst (read_requirements (world_with scenario_text)) =
     Inr [py ''numpy==1.21.0'', py ''torch>=1.9'', py '''', py ''scikit-learn'']"
proof -
  have h1: "fs (world_with scenario_text) reqs_path = Some (Regular (plain_file scenario_text))"
    by (simp add: world_with_def reqs_path_eq)
  have h2: "readable (plain_file scenario_text)" and h3: "fault (plain_file scenario_text) = None"
    by (simp_all add: plain_file_def)
  have h4: "content (plain_file scenario_text) =
     py ''numpy==1.21.0'' @ [LF] @ py ''torch>=1.9'' @ [LF] @ [LF] @ py ''scikit-learn'' @ [LF]"
    by (simp add: plain_file_def scenario_text_def)
  from read_requirements_scenario [OF h1 h2 h3 h4] h1 h2 h3 h4 show ?thesis
    by blast
qed

text \<open>
  C6: when \<open>./requirements.txt\<close> is an empty file (zero bytes, zero lines),
  \<open>read_requirements\<close> returns the empty list.
\<close>

theorem read_requirements_empty_file:
  assumes "fs w reqs_path = Some (Regular f)" and "readable f" and "fault f = None"
    and "content f = []"
  shows "fst (read_requirements w) = Inr []"
  using assms by (simp add: read_requirements_ok file_lines_def)

theorem read_requirements_empty_file_witness:
  "fs (world_with []) reqs_path = Some (Regular (plain_file [])) \<and>
   readable (plain_file []) \<and> fault (plain_file []) = None \<and> content (plain_file []) = [] \<and>
   fst (read_requirements (world_with [])) = Inr []"
proof -
  have h1: "fs (world_with []) reqs_path = Some (Regular (plain_file []))"
    by (simp add: world_with_def reqs_path_eq)
  have h2: "readable (plain_file [])" and h3: "fault (plain_file []) = None"
    and h4: "content (plain_file []) = []"
    by (simp_all add: plain_file_def)
  from read_requirements_empty_file [OF h1 h2 h3 h4] h1 h2 h3 h4 show ?thesis
    by blast
qed

subsection \<open>The file handle and the rest of the world\<close>

text \<open>
  C7: after every execution of \<open>read_requirements\<close> the table of open files is what it
  was before the call, so the handle opened for the dependency file has been released;
  this holds on every exit path: when \<open>open\<close> itself raises, when reading completes,
  and when reading raises partway through. The witness is a file whose reading fails
  after its first line: the handle is open after \<open>open\<close>, the call ends with the
  exception, and no handle is left.
\<close>

theorem read_requirements_releases_handle:
  "handles (snd (read_requirements w)) = handles w"
  by (simp add: read_requirements_world)

theorem read_requirements_releases_handle_witness:
  "handles (snd (open_file reqs_path (world_faulty (py ''numpy'' @ [LF] @ py ''torch'' @ [LF]) 1)))
     = [reqs_path] \<and>
   fst (read_requirements (world_faulty (py ''numpy'' @ [LF] @ py ''torch'' @ [LF]) 1))
     = Inl UnicodeDecodeError \<and>
   handles (snd (read_requirements (world_faulty (py ''numpy'' @ [LF] @ py ''torch'' @ [LF]) 1)))
     = []"
proof -
  let ?w = "world_faulty (py ''numpy'' @ [LF] @ py ''torch'' @ [LF]) 1"
  have "handles (snd (open_file reqs_path ?w)) = [reqs_path]"
    by (simp add: open_file_def world_faulty_def faulty_file_def reqs_path_eq)
  moreover have "fs ?w reqs_path = Some (Regular (faulty_file (py ''numpy'' @ [LF] @ py ''torch'' @ [LF]) 1))"
    by (simp add: world_faulty_def reqs_path_eq)
  then have "fst (read_requirements ?w) = Inl UnicodeDecodeError"
    by (simp add: read_requirements_fault faulty_file_def)
  moreover have "handles ?w = []"
    by (simp add: world_faulty_def)
  ultimately show ?thesis
    using read_requirements_releases_handle [of ?w] by simp
qed

text \<open>
  C8: \<open>read_requirements\<close> has no effect beyond the transient file handle: on every
  execution the file system and every further piece of global state (the extension part
  of the world, which stands for module-level bindings and the like) are left as they were.
\<close>

theorem read_requirements_frame:
  "fs (snd (read_requirements w)) = fs w \<and> world.more (snd (read_requirements w)) = world.more w"
  by (simp add: read_requirements_world)

theorem read_requirements_frame_witness:
  "fs (snd (read_requirements (world_extended (py ''numpy'' @ [LF]))))
     = fs (world_extended (py ''numpy'' @ [LF])) \<and>
   world.more (snd (read_requirements (world_extended (py ''numpy'' @ [LF])))) = [py ''module-level'']"
  using read_requirements_frame [of "world_extended (py ''numpy'' @ [LF])"]
  by (simp add: world_extended_def)

end
